theory Spec2Isabelle
  imports Main "HOL-Library.Word"
begin

section \<open>Credit card validator: data model\<close>

text \<open>
  The program is one C++ file, \<^verbatim>\<open>main.cpp\<close>. A \<^verbatim>\<open>std::string\<close> is a sequence of
  bytes, modelled as \<^typ>\<open>string\<close> (a list of 8-bit characters). The class
  \<^verbatim>\<open>CreditCard\<close> becomes a record with the five fields of the class; the field
  \<^verbatim>\<open>cvv\<close> is a C++ \<^verbatim>\<open>int\<close>, modelled as an \<^typ>\<open>int\<close> that the reading function
  keeps inside the 32-bit range.
\<close>

record CreditCard =
  cardNumber :: string
  expiryDate :: string
  cardHolder :: string
  cardType :: string
  cvv :: int

text \<open>The exceptions that can travel through \<^verbatim>\<open>main\<close>: the program's own
  \<^verbatim>\<open>CardException\<close> with its message, and the two standard-library exceptions thrown
  by \<^verbatim>\<open>substr\<close> and \<^verbatim>\<open>stoi\<close>.\<close>

datatype exn = CardException string | invalid_argument | out_of_range

subsection \<open>Characters and library functions\<close>

text \<open>\<^verbatim>\<open>isdigit\<close> and \<^verbatim>\<open>isspace\<close> in the default C locale: the ASCII digits, and the
  space with the five control characters from tab to carriage return. No byte above 127
  is a digit.\<close>

definition isdigit :: "char \<Rightarrow> bool" where
  "isdigit c = (48 \<le> (of_char c :: nat) \<and> (of_char c :: nat) \<le> 57)"

definition isspace :: "char \<Rightarrow> bool" where
  "isspace c = ((of_char c :: nat) = 32 \<or> (9 \<le> (of_char c :: nat) \<and> (of_char c :: nat) \<le> 13))"

text \<open>\<^verbatim>\<open>c - '0'\<close> on a character promoted to \<^verbatim>\<open>int\<close>.\<close>

definition digit_val :: "char \<Rightarrow> int" where
  "digit_val c = int (of_char c) - 48"

text \<open>The C++ remainder \<^verbatim>\<open>a % b\<close> truncates towards zero.\<close>

definition cpp_rem :: "int \<Rightarrow> int \<Rightarrow> int" where
  "cpp_rem a b = sgn a * (\<bar>a\<bar> mod \<bar>b\<bar>)"

text \<open>\<^verbatim>\<open>s.substr(pos, n)\<close> throws \<^verbatim>\<open>out_of_range\<close> when \<^verbatim>\<open>pos > s.size()\<close>.\<close>

definition substr :: "string \<Rightarrow> nat \<Rightarrow> nat \<Rightarrow> exn + string" where
  "substr s pos n = (if pos > length s then Inl out_of_range else Inr (take n (drop pos s)))"

text \<open>\<^verbatim>\<open>s[i]\<close> on a \<^verbatim>\<open>std::string\<close>: the character at \<open>i\<close>, and the terminating
  NUL character at \<open>i = s.size()\<close>.\<close>

definition char_at :: "string \<Rightarrow> nat \<Rightarrow> char" where
  "char_at s i = (if i < length s then s ! i else CHR 0x00)"

text \<open>Sequencing of computations that may throw: the first exception wins.\<close>

definition exn_bind :: "exn + 'a \<Rightarrow> ('a \<Rightarrow> exn + 'b) \<Rightarrow> exn + 'b" where
  "exn_bind m f = (case m of Inl e \<Rightarrow> Inl e | Inr x \<Rightarrow> f x)"

section \<open>The Luhn check\<close>

text \<open>
  The loop of \<^verbatim>\<open>validateCardNumber\<close>:
  \<^verbatim>\<open>for (int i = cardNumber.length() - 1; i >= 0; --i)\<close>, with the loop state
  \<^verbatim>\<open>sum\<close> (here \<open>sm\<close>) and \<^verbatim>\<open>alternate\<close>. The index is a signed integer that runs below zero
  to stop the loop.
\<close>

function validate_loop :: "string \<Rightarrow> int \<Rightarrow> int \<Rightarrow> bool \<Rightarrow> int \<times> bool" where
  "validate_loop s i sm alternate =
     (if i \<ge> 0 then
        (if isdigit (char_at s (nat i)) then
           (let n = digit_val (char_at s (nat i));
                n' = (if alternate
                      then (let d = n * 2 in if d > 9 then d - 9 else d)
                      else n)
            in validate_loop s (i - 1) (sm + n') (\<not> alternate))
         else validate_loop s (i - 1) sm alternate)
      else (sm, alternate))"
  by pat_completeness auto
termination
  by (relation "measure (\<lambda>(s, i, sm, alternate). nat (i + 1))") auto

declare validate_loop.simps [simp del]

definition validateCardNumber :: "CreditCard \<Rightarrow> bool" where
  "validateCardNumber cc =
     (let sm = fst (validate_loop (cardNumber cc) (int (length (cardNumber cc)) - 1) 0 False)
      in cpp_rem sm 10 = 0)"

section \<open>Network detection\<close>

text \<open>
  \<^verbatim>\<open>detectCardType\<close> compares \<^verbatim>\<open>cardNumber[0]\<close> and then, with short-circuit
  evaluation, up to four fresh results of \<^verbatim>\<open>cardNumber.substr(0, 2)\<close>.
\<close>

definition detectCardType :: "CreditCard \<Rightarrow> exn + string" where
  "detectCardType cc =
     (if char_at (cardNumber cc) 0 = CHR ''4'' then Inr ''Visa''
      else exn_bind (substr (cardNumber cc) 0 2) (\<lambda>p1.
        if p1 = ''51'' then Inr ''MasterCard''
        else exn_bind (substr (cardNumber cc) 0 2) (\<lambda>p2.
          if p2 = ''52'' then Inr ''MasterCard''
          else exn_bind (substr (cardNumber cc) 0 2) (\<lambda>p3.
            if p3 = ''34'' then Inr ''American Express''
            else exn_bind (substr (cardNumber cc) 0 2) (\<lambda>p4.
              if p4 = ''37'' then Inr ''American Express''
              else Inr ''Unknown'')))))"

section \<open>The CVV check\<close>

text \<open>\<^verbatim>\<open>std::to_string\<close> on an \<^verbatim>\<open>int\<close>: the decimal digits, most significant first,
  after a minus sign for a negative value.\<close>

fun dec_digits :: "nat \<Rightarrow> string" where
  "dec_digits n =
     (if n < 10 then [char_of (48 + n)]
      else dec_digits (n div 10) @ [char_of (48 + n mod 10)])"

declare dec_digits.simps [simp del]

definition to_string :: "int \<Rightarrow> string" where
  "to_string v = (if v < 0 then CHR ''-'' # dec_digits (nat (- v)) else dec_digits (nat v))"

definition isCVVValid :: "CreditCard \<Rightarrow> bool" where
  "isCVVValid cc =
     (if (cardType cc = ''American Express'' \<and> length (to_string (cvv cc)) = 4) \<or>
         (cardType cc \<noteq> ''American Express'' \<and> length (to_string (cvv cc)) = 3)
      then True else False)"

section \<open>Reading numbers from text\<close>

text \<open>The value of a string of decimal digits.\<close>

definition dec_value :: "string \<Rightarrow> int" where
  "dec_value ds = foldl (\<lambda>a c. a * 10 + digit_val c) 0 ds"

text \<open>Both \<^verbatim>\<open>strtol\<close> (under \<^verbatim>\<open>std::stoi\<close>) and the stream extraction of an
  \<^verbatim>\<open>int\<close> skip leading white space, take an optional sign and then the longest run of
  decimal digits. The result is the sign, and the digits found.\<close>

definition scan_int :: "string \<Rightarrow> bool \<times> string" where
  "scan_int str =
     (let s1 = dropWhile isspace str;
          neg = (s1 \<noteq> [] \<and> hd s1 = CHR ''-'');
          s2 = (if s1 \<noteq> [] \<and> (hd s1 = CHR ''-'' \<or> hd s1 = CHR ''+'') then tl s1 else s1)
      in (neg, takeWhile isdigit s2))"

definition INT_MAX :: int where "INT_MAX = 2147483647"
definition INT_MIN :: int where "INT_MIN = - 2147483648"

text \<open>\<^verbatim>\<open>std::stoi\<close> throws \<^verbatim>\<open>invalid_argument\<close> when no digits are found and
  \<^verbatim>\<open>out_of_range\<close> when the value does not fit an \<^verbatim>\<open>int\<close>.\<close>

definition stoi :: "string \<Rightarrow> exn + int" where
  "stoi str =
     (case scan_int str of (neg, ds) \<Rightarrow>
        if ds = [] then Inl invalid_argument
        else (let v = (if neg then - dec_value ds else dec_value ds)
              in if v < INT_MIN \<or> INT_MAX < v then Inl out_of_range else Inr v))"

text \<open>
  \<^verbatim>\<open>cin >> cvv\<close> on the text that is left of the input at the CVV prompt. The
  extraction first skips white space; when it meets the end of the input there (the text
  is empty or white space only, which is also the case whenever an earlier read has
  already failed), it does not start and the variable keeps the value \<open>old\<close> it had: in
  \<^verbatim>\<open>main\<close> the indeterminate value of an uninitialised \<^verbatim>\<open>int\<close>. Otherwise, without
  digits the extraction fails and stores 0, and a value outside the range of \<^verbatim>\<open>int\<close> is
  stored as the nearest bound. The stream's failure flag is not read again by the
  program.
\<close>

definition read_int :: "int \<Rightarrow> string \<Rightarrow> int" where
  "read_int old str =
     (if dropWhile isspace str = [] then old
      else (case scan_int str of (neg, ds) \<Rightarrow>
        if ds = [] then 0
        else (let v = (if neg then - dec_value ds else dec_value ds)
              in if v < INT_MIN then INT_MIN else if INT_MAX < v then INT_MAX else v)))"

section \<open>The expiry check\<close>

datatype expiry_status = Expired | ExpiringSoon | Valid

text \<open>The chain of conditions of \<^verbatim>\<open>checkExpiry\<close>, on the parsed month and year and on
  the month and year of the clock.\<close>

definition expiryStatus :: "int \<Rightarrow> int \<Rightarrow> int \<Rightarrow> int \<Rightarrow> expiry_status" where
  "expiryStatus month year currentMonth currentYear =
     (if year < currentYear \<or> (year = currentYear \<and> month < currentMonth) then Expired
      else if (year = currentYear \<and> month - currentMonth \<le> 6) \<or>
              (year = currentYear + 1 \<and> currentMonth > month) then ExpiringSoon
      else Valid)"

text \<open>The text written for each class. The leading emoji are the UTF-8 bytes of the
  source file.\<close>

definition endl :: string where
  "endl = [CHR 0x0A]"

definition status_line :: "expiry_status \<Rightarrow> string" where
  "status_line st =
     (case st of
        Expired \<Rightarrow> [CHR 0xF0, CHR 0x9F, CHR 0x94, CHR 0xB4] @ '' Status: Card is **Expired**!''
      | ExpiringSoon \<Rightarrow>
          [CHR 0xF0, CHR 0x9F, CHR 0x9F, CHR 0xA1] @ '' Status: Card is expiring **soon**!''
      | Valid \<Rightarrow> [CHR 0xF0, CHR 0x9F, CHR 0x9F, CHR 0xA2] @ '' Status: Card is **Valid**.'')"

section \<open>The program's environment and effects\<close>

text \<open>
  What the program can change: the text written to the standard output and to the
  standard error stream, and the contents of the file \<^verbatim>\<open>card_log.txt\<close>.
\<close>

record world =
  cout :: string
  cerr :: string
  card_log :: string

text \<open>
  What the program reads from its environment besides the user's input: the broken-down
  local time (\<^verbatim>\<open>tm_mon\<close> counts from 0, \<^verbatim>\<open>tm_year\<close> from 1900), the value returned by
  \<^verbatim>\<open>rand()\<close>, whether the log file can be opened for appending (writes to a stream
  that failed to open do nothing), and the 32 bits that the uninitialised local variable
  \<^verbatim>\<open>int cvv\<close> of \<^verbatim>\<open>main\<close> happens to hold.
\<close>

record env =
  tm_mon :: int
  tm_year :: int
  rand_value :: nat
  log_opens :: bool
  cvv_uninit :: "32 word"

definition put :: "string \<Rightarrow> world \<Rightarrow> world" where
  "put s w = w\<lparr>cout := cout w @ s\<rparr>"

definition put_err :: "string \<Rightarrow> world \<Rightarrow> world" where
  "put_err s w = w\<lparr>cerr := cerr w @ s\<rparr>"

definition put_log :: "env \<Rightarrow> string \<Rightarrow> world \<Rightarrow> world" where
  "put_log e s w = (if log_opens e then w\<lparr>card_log := card_log w @ s\<rparr> else w)"

text \<open>\<^verbatim>\<open>checkExpiry\<close>: line 91 parses the month, line 92 the year, either of which can
  throw before anything is written.\<close>

definition checkExpiry :: "env \<Rightarrow> CreditCard \<Rightarrow> world \<Rightarrow> exn option \<times> world" where
  "checkExpiry e cc w =
     (case exn_bind (substr (expiryDate cc) 0 2) stoi of
        Inl x \<Rightarrow> (Some x, w)
      | Inr month \<Rightarrow>
          (case exn_bind (substr (expiryDate cc) 3 2) (\<lambda>yy. stoi (''20'' @ yy)) of
             Inl x \<Rightarrow> (Some x, w)
           | Inr year \<Rightarrow>
               (let currentMonth = tm_mon e + 1;
                    currentYear = tm_year e + 1900
                in (None, put (status_line (expiryStatus month year currentMonth currentYear) @ endl) w))))"

text \<open>\<^verbatim>\<open>cardNumber.substr(cardNumber.length() - 4)\<close>: on a number shorter than four
  characters the unsigned position wraps around and \<^verbatim>\<open>substr\<close> throws.\<close>

definition maskCardNumber :: "CreditCard \<Rightarrow> exn + string" where
  "maskCardNumber cc =
     (if length (cardNumber cc) < 4 then Inl out_of_range
      else exn_bind (substr (cardNumber cc) (length (cardNumber cc) - 4) (length (cardNumber cc)))
             (\<lambda>tl4. Inr (''XXXX-XXXX-XXXX-'' @ tl4)))"

definition logToFile :: "env \<Rightarrow> CreditCard \<Rightarrow> world \<Rightarrow> exn option \<times> world" where
  "logToFile e cc w =
     (let w1 = put_log e (''Card Holder: '' @ cardHolder cc @ endl) w;
          w2 = put_log e (''Card Type: '' @ cardType cc @ endl) w1;
          w3 = put_log e ''Masked Card: '' w2
      in case maskCardNumber cc of
           Inl x \<Rightarrow> (Some x, w3)
         | Inr m \<Rightarrow>
             (let w4 = put_log e (m @ endl) w3;
                  w5 = put_log e (''Expiry: '' @ expiryDate cc @ endl @ endl) w4
              in (None, w5)))"

text \<open>\<^verbatim>\<open>displayCardInfo\<close> stores the detected type in the card, so the card is part of
  the result.\<close>

definition displayCardInfo ::
  "env \<Rightarrow> CreditCard \<Rightarrow> world \<Rightarrow> exn option \<times> CreditCard \<times> world" where
  "displayCardInfo e cc w =
     (let w1 = put (endl @ ''Card Holder: '' @ cardHolder cc @ endl) w;
          w2 = put ''Card Number (masked): '' w1
      in case maskCardNumber cc of
           Inl x \<Rightarrow> (Some x, cc, w2)
         | Inr m \<Rightarrow>
             (let w3 = put (m @ endl) w2
              in case detectCardType cc of
                   Inl x \<Rightarrow> (Some x, cc, w3)
                 | Inr ty \<Rightarrow>
                     (let cc' = cc\<lparr>cardType := ty\<rparr>;
                          w4 = put (''Card Type: '' @ cardType cc' @ endl) w3;
                          w5 = put (''CVV Status: '' @
                                    (if isCVVValid cc' then ''Valid'' else ''Invalid'') @ endl) w4
                      in case checkExpiry e cc' w5 of
                           (Some x, w6) \<Rightarrow> (Some x, cc', w6)
                         | (None, w6) \<Rightarrow>
                             (case logToFile e cc' w6 of (r, w7) \<Rightarrow> (r, cc', w7)))))"

text \<open>\<^verbatim>\<open>cardRiskScore\<close> prints \<^verbatim>\<open>(rand() % 100) / 100.0\<close> with two decimals: the
  two decimal digits of the remainder after \<^verbatim>\<open>0.\<close>.\<close>

definition cardRiskScore :: "env \<Rightarrow> world \<Rightarrow> world" where
  "cardRiskScore e w =
     (let r = rand_value e mod 100
      in put (''AI Risk Score (0=Safe, 1=High Risk): '' @
              ''0.'' @ [char_of (48 + r div 10), char_of (48 + r mod 10)] @ endl) w)"

section \<open>The main function\<close>

text \<open>
  The four texts the program reads: the token taken by \<^verbatim>\<open>cin >> number\<close>, the token
  taken by \<^verbatim>\<open>cin >> expiry\<close>, the line taken by \<^verbatim>\<open>getline\<close> and the text left
  of the input when \<^verbatim>\<open>cin >> cvv\<close> runs. A read that meets the end of the input leaves
  its text empty.
\<close>

record input =
  number_text :: string
  expiry_text :: string
  holder_text :: string
  cvv_text :: string

text \<open>The constructor of \<^verbatim>\<open>EnhancedCard\<close> passes its arguments to the constructor of
  \<^verbatim>\<open>CreditCard\<close>, which leaves \<^verbatim>\<open>cardType\<close> default-constructed (empty).\<close>

definition EnhancedCard :: "string \<Rightarrow> string \<Rightarrow> string \<Rightarrow> int \<Rightarrow> CreditCard" where
  "EnhancedCard number expiry holder cvv0 =
     \<lparr>cardNumber = number, expiryDate = expiry, cardHolder = holder, cardType = [], cvv = cvv0\<rparr>"

definition cross_mark :: string where
  "cross_mark = [CHR 0xE2, CHR 0x9D, CHR 0x8C]"

definition length_message :: string where
  "length_message = cross_mark @ '' Invalid card number length!''"

definition luhn_message :: string where
  "luhn_message = cross_mark @ '' Card number failed Luhn check! Invalid.''"

text \<open>Everything written before the length check: the welcome line and the four
  prompts.\<close>

definition prompts :: string where
  "prompts =
     [CHR 0xF0, CHR 0x9F, CHR 0x92, CHR 0xB3] @ '' Welcome to Credit Card Validator '' @
     [CHR 0xF0, CHR 0x9F, CHR 0x92, CHR 0xB3] @ endl @ endl @
     ''Enter Card Number (no spaces or dashes): '' @
     ''Enter Expiry Date (MM/YY): '' @
     ''Enter Card Holder Name: '' @
     ''Enter CVV: ''"

text \<open>The body of the \<^verbatim>\<open>try\<close> block: the exception that leaves it, if any, and the
  world it leaves behind.\<close>

definition main_try :: "input \<Rightarrow> env \<Rightarrow> world \<Rightarrow> exn option \<times> world" where
  "main_try inp e w =
     (let w1 = put prompts w;
          number = number_text inp;
          expiry = expiry_text inp;
          holder = holder_text inp;
          cvv0 = read_int (sint (cvv_uninit e)) (cvv_text inp)
      in if length number < 13 \<or> length number > 19
         then (Some (CardException length_message), w1)
         else (let cc = EnhancedCard number expiry holder cvv0
               in if \<not> validateCardNumber cc
                  then (Some (CardException luhn_message), w1)
                  else (case displayCardInfo e cc w1 of
                          (Some x, cc', w2) \<Rightarrow> (Some x, w2)
                        | (None, cc', w2) \<Rightarrow> (None, cardRiskScore e w2))))"

text \<open>\<^verbatim>\<open>e.what()\<close> is a C string: it ends at the first NUL character.\<close>

definition c_str :: "string \<Rightarrow> string" where
  "c_str s = takeWhile (\<lambda>c. c \<noteq> CHR 0x00) s"

text \<open>\<^verbatim>\<open>main\<close> with its two handlers: the exit status and the final world.\<close>

definition main :: "input \<Rightarrow> env \<Rightarrow> world \<Rightarrow> int \<times> world" where
  "main inp e w =
     (case main_try inp e w of
        (Some (CardException m), w') \<Rightarrow> (0, put_err (c_str m @ endl) w')
      | (Some _, w') \<Rightarrow> (0, put_err (''Unexpected error occurred!'' @ endl) w')
      | (None, w') \<Rightarrow> (0, w'))"

section \<open>Auxiliary and specification-side definitions\<close>

text \<open>The loop of \<^verbatim>\<open>validateCardNumber\<close> seen as a recursion over the characters
  from right to left; \<open>validate_loop_fold\<close> below proves that the two agree.\<close>

fun luhn_fold :: "string \<Rightarrow> int \<Rightarrow> bool \<Rightarrow> int \<times> bool" where
  "luhn_fold [] sm alternate = (sm, alternate)"
| "luhn_fold (c # cs) sm alternate =
     (if isdigit c
      then luhn_fold cs
             (sm + (if alternate
                    then (let d = digit_val c * 2 in if d > 9 then d - 9 else d)
                    else digit_val c))
             (\<not> alternate)
      else luhn_fold cs sm alternate)"

text \<open>
  The specification's digit sum, written from its words and not from the code: going
  from right to left, the digit at position \<open>k\<close> (the rightmost is position 0) counts as
  itself when \<open>k\<close> is even; every second digit (odd \<open>k\<close>) is doubled, and 9 is
  subtracted when the doubled value exceeds 9.
\<close>

definition luhn_term :: "nat \<Rightarrow> char \<Rightarrow> int" where
  "luhn_term k c =
     (if odd k then (if 2 * digit_val c > 9 then 2 * digit_val c - 9 else 2 * digit_val c)
      else digit_val c)"

definition luhn_sum_spec :: "string \<Rightarrow> int" where
  "luhn_sum_spec s = sum_list (map (\<lambda>(k, c). luhn_term k c) (enumerate 0 (rev s)))"

section \<open>Properties of the Luhn check\<close>

lemma validate_loop_step:
  "0 \<le> i \<Longrightarrow> validate_loop s i sm alternate =
     (if isdigit (char_at s (nat i))
      then validate_loop s (i - 1)
             (sm + (if alternate
                    then (let d = digit_val (char_at s (nat i)) * 2 in if d > 9 then d - 9 else d)
                    else digit_val (char_at s (nat i))))
             (\<not> alternate)
      else validate_loop s (i - 1) sm alternate)"
  by (subst validate_loop.simps) (simp add: Let_def)

lemma validate_loop_stop: "i < 0 \<Longrightarrow> validate_loop s i sm alternate = (sm, alternate)"
  by (subst validate_loop.simps) simp

text \<open>After the loop has visited the indices below \<open>k\<close>, it has consumed the first
  \<open>k\<close> characters in reverse order.\<close>

lemma validate_loop_take:
  "k \<le> length s \<Longrightarrow>
     validate_loop s (int k - 1) sm alternate = luhn_fold (rev (take k s)) sm alternate"
proof (induction k arbitrary: sm alternate)
  case 0
  show ?case by (simp add: validate_loop_stop)
next
  case (Suc k)
  then have k: "k < length s" by simp
  have r: "rev (take (Suc k) s) = s ! k # rev (take k s)"
    using k by (simp add: take_Suc_conv_app_nth)
  have c: "char_at s k = s ! k" using k by (simp add: char_at_def)
  have i: "int (Suc k) - 1 = int k" by simp
  have IH: "validate_loop s (int k - 1) a b = luhn_fold (rev (take k s)) a b" for a b
    using Suc.IH k by simp
  show ?case
    unfolding i r by (subst validate_loop_step) (simp_all add: c IH)
qed

lemma validate_loop_fold:
  "validate_loop s (int (length s) - 1) sm alternate = luhn_fold (rev s) sm alternate"
  using validate_loop_take [of "length s" s sm alternate] by simp

lemma cpp_rem_10: "cpp_rem a 10 = 0 \<longleftrightarrow> 10 dvd a"
  unfolding cpp_rem_def
  by (auto simp: sgn_if dvd_eq_mod_eq_0 zmod_zminus1_eq_if split: if_splits)

lemma validateCardNumber_fold:
  "validateCardNumber cc \<longleftrightarrow> 10 dvd fst (luhn_fold (rev (cardNumber cc)) 0 False)"
  unfolding validateCardNumber_def Let_def validate_loop_fold cpp_rem_10 ..

lemma luhn_fold_filter:
  "luhn_fold (filter isdigit cs) sm alternate = luhn_fold cs sm alternate"
  by (induction cs arbitrary: sm alternate) simp_all

lemma luhn_fold_digits:
  "list_all isdigit cs \<Longrightarrow> alternate = odd n \<Longrightarrow>
     fst (luhn_fold cs sm alternate) =
       sm + sum_list (map (\<lambda>(k, c). luhn_term k c) (enumerate n cs))"
proof (induction cs arbitrary: sm alternate n)
  case Nil
  show ?case by simp
next
  case (Cons c cs)
  from Cons.prems have d: "isdigit c" and ds: "list_all isdigit cs" by simp_all
  have "fst (luhn_fold cs a (\<not> alternate)) =
          a + sum_list (map (\<lambda>(k, c). luhn_term k c) (enumerate (Suc n) cs))" for a
    using Cons.IH [OF ds, of "\<not> alternate" "Suc n" a] Cons.prems(2) by simp
  then show ?case
    using d Cons.prems(2) by (simp add: luhn_term_def Let_def mult.commute)
qed

text \<open>
  The sum of the loop is modelled as an unbounded integer. It never leaves the range of a
  32-bit \<^verbatim>\<open>int\<close>: it grows by at most 9 for each character, and \<^verbatim>\<open>main\<close> calls the check
  only on numbers of at most 19 characters.
\<close>

lemma digit_val_range: "isdigit c \<Longrightarrow> 0 \<le> digit_val c \<and> digit_val c \<le> 9"
  by (auto simp: isdigit_def digit_val_def)

lemma luhn_fold_bound:
  "sm \<le> fst (luhn_fold cs sm alternate) \<and>
   fst (luhn_fold cs sm alternate) \<le> sm + 9 * int (length cs)"
proof (induction cs arbitrary: sm alternate)
  case Nil
  show ?case by simp
next
  case (Cons c cs)
  show ?case
  proof (cases "isdigit c")
    case True
    define n where "n = (if alternate
                    then (let d = digit_val c * 2 in if d > 9 then d - 9 else d)
                    else digit_val c)"
    have n: "0 \<le> n \<and> n \<le> 9"
      using digit_val_range [OF True] by (auto simp: n_def Let_def)
    have "luhn_fold (c # cs) sm alternate = luhn_fold cs (sm + n) (\<not> alternate)"
      using True by (simp add: n_def)
    then show ?thesis
      using Cons.IH [of "sm + n" "\<not> alternate"] n by simp
  next
    case False
    then show ?thesis
      using Cons.IH [of sm alternate] by simp
  qed
qed

lemma validate_sum_bound:
  "0 \<le> fst (validate_loop s (int (length s) - 1) 0 False) \<and>
   fst (validate_loop s (int (length s) - 1) 0 False) \<le> 9 * int (length s)"
  using luhn_fold_bound [of 0 "rev s" False] by (simp add: validate_loop_fold)

text \<open>
  Claim C1. For every digit string of length 13 to 19 the Luhn checker returns true
  exactly when the specification's alternating-doubled digit sum is divisible by 10; the
  test vector 4539578763621486 validates, and the same string with its last digit
  incremented (4539578763621487) does not.
\<close>

theorem luhn_refines_spec:
  "(list_all isdigit (cardNumber cc) \<and> 13 \<le> length (cardNumber cc) \<and>
      length (cardNumber cc) \<le> 19 \<longrightarrow>
      (validateCardNumber cc \<longleftrightarrow> 10 dvd luhn_sum_spec (cardNumber cc))) \<and>
   validateCardNumber (cc\<lparr>cardNumber := ''4539578763621486''\<rparr>) \<and>
   \<not> validateCardNumber (cc\<lparr>cardNumber := ''4539578763621487''\<rparr>)"
proof -
  have 1: "validateCardNumber cc \<longleftrightarrow> 10 dvd luhn_sum_spec (cardNumber cc)"
    if digits: "list_all isdigit (cardNumber cc)"
  proof -
    have "list_all isdigit (rev (cardNumber cc))"
      using digits by (simp add: list_all_iff)
    then have "fst (luhn_fold (rev (cardNumber cc)) 0 False) = luhn_sum_spec (cardNumber cc)"
      using luhn_fold_digits [of "rev (cardNumber cc)" False 0 0]
      by (simp add: luhn_sum_spec_def)
    then show ?thesis
      by (simp add: validateCardNumber_fold)
  qed
  have 2: "validateCardNumber (cc\<lparr>cardNumber := ''4539578763621486''\<rparr>)"
    by (simp add: validateCardNumber_fold isdigit_def digit_val_def)
  have 3: "\<not> validateCardNumber (cc\<lparr>cardNumber := ''4539578763621487''\<rparr>)"
    by (simp add: validateCardNumber_fold isdigit_def digit_val_def)
  show ?thesis using 1 2 3 by blast
qed

theorem luhn_refines_spec_witness:
  "list_all isdigit ''4539578763621486'' \<and> 13 \<le> length ''4539578763621486'' \<and>
   length ''4539578763621486'' \<le> 19 \<and>
   validateCardNumber (EnhancedCard ''4539578763621486'' ''12/30'' ''A'' 123) \<and>
   10 dvd luhn_sum_spec ''4539578763621486'' \<and> luhn_sum_spec ''4539578763621486'' = 80"
  using luhn_refines_spec [of "EnhancedCard ''4539578763621486'' ''12/30'' ''A'' 123"]
  by (simp add: EnhancedCard_def isdigit_def luhn_sum_spec_def luhn_term_def digit_val_def
      enumerate_eq_zip upt_rec)

text \<open>
  Claim C8. Only digit characters add to the sum and only digit characters toggle the
  alternation flag: the loop ends with the same sum and the same flag on a string and on
  that string with every non-digit character removed, from any starting sum and flag,
  and so the Luhn result of the two strings is the same.
\<close>

theorem luhn_ignores_non_digits:
  "validateCardNumber cc =
     validateCardNumber (cc\<lparr>cardNumber := filter isdigit (cardNumber cc)\<rparr>) \<and>
   validate_loop (cardNumber cc) (int (length (cardNumber cc)) - 1) sm alternate =
     validate_loop (filter isdigit (cardNumber cc))
       (int (length (filter isdigit (cardNumber cc))) - 1) sm alternate"
  by (simp add: validateCardNumber_fold validate_loop_fold rev_filter luhn_fold_filter)

section \<open>Properties of the expiry check\<close>

lemmas scan_defs = scan_int_def dec_value_def isdigit_def isspace_def digit_val_def
  INT_MAX_def INT_MIN_def

text \<open>
  Claim C2. For every expiry month and year and every current month and year the
  classifier yields exactly one of the three classes, in priority order: Expired exactly
  when the year is before the current year, or is the current year with an earlier month;
  otherwise ExpiringSoon exactly when the year is the current year and
  \<open>month - currentMonth \<le> 6\<close>, or the year is the next year and the current month is
  greater than the month; otherwise Valid. With the clock at June 2024 (\<^verbatim>\<open>tm_mon = 5\<close>,
  \<^verbatim>\<open>tm_year = 124\<close>), \<^verbatim>\<open>checkExpiry\<close> writes the Expired line for 03/24, the
  ExpiringSoon line for 12/24 and the Valid line for 01/26.
\<close>

theorem expiry_classifier:
  "(expiryStatus m y cm cy = Expired \<longleftrightarrow> (y < cy \<or> (y = cy \<and> m < cm))) \<and>
   (expiryStatus m y cm cy = ExpiringSoon \<longleftrightarrow>
      \<not> (y < cy \<or> (y = cy \<and> m < cm)) \<and>
      ((y = cy \<and> m - cm \<le> 6) \<or> (y = cy + 1 \<and> cm > m))) \<and>
   (expiryStatus m y cm cy = Valid \<longleftrightarrow>
      \<not> (y < cy \<or> (y = cy \<and> m < cm)) \<and>
      \<not> ((y = cy \<and> m - cm \<le> 6) \<or> (y = cy + 1 \<and> cm > m))) \<and>
   checkExpiry (e\<lparr>tm_mon := 5, tm_year := 124\<rparr>) (cc\<lparr>expiryDate := ''03/24''\<rparr>) w =
     (None, put (status_line Expired @ endl) w) \<and>
   checkExpiry (e\<lparr>tm_mon := 5, tm_year := 124\<rparr>) (cc\<lparr>expiryDate := ''12/24''\<rparr>) w =
     (None, put (status_line ExpiringSoon @ endl) w) \<and>
   checkExpiry (e\<lparr>tm_mon := 5, tm_year := 124\<rparr>) (cc\<lparr>expiryDate := ''01/26''\<rparr>) w =
     (None, put (status_line Valid @ endl) w)"
proof -
  have 1: "expiryStatus m y cm cy = Expired \<longleftrightarrow> (y < cy \<or> (y = cy \<and> m < cm))"
    by (simp add: expiryStatus_def)
  have 2: "expiryStatus m y cm cy = ExpiringSoon \<longleftrightarrow>
      \<not> (y < cy \<or> (y = cy \<and> m < cm)) \<and>
      ((y = cy \<and> m - cm \<le> 6) \<or> (y = cy + 1 \<and> cm > m))"
    by (simp add: expiryStatus_def)
  have 3: "expiryStatus m y cm cy = Valid \<longleftrightarrow>
      \<not> (y < cy \<or> (y = cy \<and> m < cm)) \<and>
      \<not> ((y = cy \<and> m - cm \<le> 6) \<or> (y = cy + 1 \<and> cm > m))"
    by (simp add: expiryStatus_def)
  have 4: "checkExpiry (e\<lparr>tm_mon := 5, tm_year := 124\<rparr>) (cc\<lparr>expiryDate := ''03/24''\<rparr>) w =
     (None, put (status_line Expired @ endl) w)"
    by (simp add: checkExpiry_def exn_bind_def substr_def stoi_def scan_defs expiryStatus_def)
  have 5: "checkExpiry (e\<lparr>tm_mon := 5, tm_year := 124\<rparr>) (cc\<lparr>expiryDate := ''12/24''\<rparr>) w =
     (None, put (status_line ExpiringSoon @ endl) w)"
    by (simp add: checkExpiry_def exn_bind_def substr_def stoi_def scan_defs expiryStatus_def)
  have 6: "checkExpiry (e\<lparr>tm_mon := 5, tm_year := 124\<rparr>) (cc\<lparr>expiryDate := ''01/26''\<rparr>) w =
     (None, put (status_line Valid @ endl) w)"
    by (simp add: checkExpiry_def exn_bind_def substr_def stoi_def scan_defs expiryStatus_def)
  show ?thesis using 1 2 3 4 5 6 by blast
qed

text \<open>
  Claim C10. ExpiringSoon is reported for dates more than six months ahead: for every
  year \<open>Y\<close> and every expiry month \<open>m\<close> from 1 to 11, in month 12 of year \<open>Y\<close> a card
  expiring in month \<open>m\<close> of year \<open>Y + 1\<close> is ExpiringSoon; so is expiry 11/(Y+1), eleven
  months ahead, and \<^verbatim>\<open>checkExpiry\<close> writes the ExpiringSoon line for 11/25 in December
  2024.
\<close>

theorem expiring_soon_next_year:
  "(1 \<le> m \<and> m \<le> 11 \<longrightarrow> expiryStatus m (Y + 1) 12 Y = ExpiringSoon) \<and>
   expiryStatus 11 (Y + 1) 12 Y = ExpiringSoon \<and>
   checkExpiry (e\<lparr>tm_mon := 11, tm_year := 124\<rparr>) (cc\<lparr>expiryDate := ''11/25''\<rparr>) w =
     (None, put (status_line ExpiringSoon @ endl) w)"
proof -
  have 1: "1 \<le> m \<and> m \<le> 11 \<longrightarrow> expiryStatus m (Y + 1) 12 Y = ExpiringSoon"
    by (simp add: expiryStatus_def)
  have 2: "expiryStatus 11 (Y + 1) 12 Y = ExpiringSoon"
    by (simp add: expiryStatus_def)
  have 3: "checkExpiry (e\<lparr>tm_mon := 11, tm_year := 124\<rparr>) (cc\<lparr>expiryDate := ''11/25''\<rparr>) w =
           (None, put (status_line ExpiringSoon @ endl) w)"
    by (simp add: checkExpiry_def exn_bind_def substr_def stoi_def scan_defs expiryStatus_def)
  show ?thesis using 1 2 3 by blast
qed

theorem expiring_soon_next_year_witness:
  "(1::int) \<le> 7 \<and> (7::int) \<le> 11 \<and> expiryStatus 7 (2024 + 1) 12 2024 = ExpiringSoon \<and>
   (12 * (2024 + 1) + 7) - (12 * 2024 + 12) = (7::int)"
  using expiring_soon_next_year [of 7 2024] by simp

section \<open>Properties of network detection\<close>

lemma substr_0 [simp]: "substr s 0 n = Inr (take n s)"
  by (simp add: substr_def)

lemma char_at_0: "char_at s 0 = c \<longleftrightarrow> (if s = [] then c = CHR 0x00 else hd s = c)"
  by (cases s) (auto simp: char_at_def)

lemma detectCardType_eq:
  "detectCardType cc =
     Inr (if take 1 (cardNumber cc) = ''4'' then ''Visa''
          else if take 2 (cardNumber cc) = ''51'' \<or> take 2 (cardNumber cc) = ''52''
               then ''MasterCard''
          else if take 2 (cardNumber cc) = ''34'' \<or> take 2 (cardNumber cc) = ''37''
               then ''American Express''
          else ''Unknown'')"
proof -
  have "char_at (cardNumber cc) 0 = CHR ''4'' \<longleftrightarrow> take 1 (cardNumber cc) = ''4''"
    by (cases "cardNumber cc") (simp_all add: char_at_def)
  then show ?thesis
    by (simp add: detectCardType_def exn_bind_def)
qed

text \<open>
  Claim C3. Network detection always returns a value (never an exception), decided by
  the leading characters in priority order: first character 4 gives Visa; else the
  first two characters 51 or 52 give MasterCard; else 34 or 37 give American Express;
  else Unknown. Two numbers with the same first two characters get the same network.
\<close>

theorem network_detection:
  "detectCardType a =
     Inr (if take 1 (cardNumber a) = ''4'' then ''Visa''
          else if take 2 (cardNumber a) = ''51'' \<or> take 2 (cardNumber a) = ''52''
               then ''MasterCard''
          else if take 2 (cardNumber a) = ''34'' \<or> take 2 (cardNumber a) = ''37''
               then ''American Express''
          else ''Unknown'') \<and>
   (take 2 (cardNumber a) = take 2 (cardNumber b) \<longrightarrow> detectCardType a = detectCardType b) \<and>
   detectCardType (a\<lparr>cardNumber := ''4000000000000000''\<rparr>) = Inr ''Visa'' \<and>
   detectCardType (a\<lparr>cardNumber := ''5100000000000000''\<rparr>) = Inr ''MasterCard'' \<and>
   detectCardType (a\<lparr>cardNumber := ''3700000000000000''\<rparr>) = Inr ''American Express'' \<and>
   detectCardType (a\<lparr>cardNumber := ''6000000000000000''\<rparr>) = Inr ''Unknown''"
proof -
  have t1: "take 1 (cardNumber a) = take 1 (cardNumber b)"
    if "take 2 (cardNumber a) = take 2 (cardNumber b)"
  proof -
    have "take 1 (take 2 (cardNumber a)) = take 1 (take 2 (cardNumber b))"
      using that by simp
    then show ?thesis by simp
  qed
  have 2: "take 2 (cardNumber a) = take 2 (cardNumber b) \<longrightarrow> detectCardType a = detectCardType b"
    using t1 by (simp add: detectCardType_eq)
  show ?thesis
    using 2 by (simp add: detectCardType_eq)
qed

theorem network_detection_witness:
  "take 2 ''4000000000000000'' = take 2 ''4099999999999999'' \<and>
   detectCardType (EnhancedCard ''4000000000000000'' ''12/30'' ''A'' 123) =
   detectCardType (EnhancedCard ''4099999999999999'' ''01/31'' ''B'' 4567) \<and>
   detectCardType (EnhancedCard ''4099999999999999'' ''01/31'' ''B'' 4567) = Inr ''Visa''"
  using network_detection [of "EnhancedCard ''4000000000000000'' ''12/30'' ''A'' 123"
      "EnhancedCard ''4099999999999999'' ''01/31'' ''B'' 4567"]
  by (auto simp add: EnhancedCard_def)

section \<open>Properties of the CVV check\<close>

text \<open>The length of the decimal rendering of a natural number, by its size.\<close>

lemma dec_digits_small: "n < 10 \<Longrightarrow> dec_digits n = [char_of (48 + n)]"
  by (subst dec_digits.simps) simp

lemma dec_digits_large:
  "10 \<le> n \<Longrightarrow> dec_digits n = dec_digits (n div 10) @ [char_of (48 + n mod 10)]"
  by (subst dec_digits.simps) simp

lemma length_dec_digits_1: "length (dec_digits n) = 1 \<longleftrightarrow> n < 10"
proof (cases "n < 10")
  case True
  then show ?thesis by (simp add: dec_digits_small)
next
  case False
  then have "length (dec_digits n) = Suc (length (dec_digits (n div 10)))"
    by (simp add: dec_digits_large)
  moreover have "length (dec_digits (n div 10)) \<noteq> 0"
    by (subst dec_digits.simps) simp
  ultimately show ?thesis using False by simp
qed

lemma length_dec_digits_2: "length (dec_digits n) = 2 \<longleftrightarrow> 10 \<le> n \<and> n < 100"
proof (cases "n < 10")
  case True
  then show ?thesis by (simp add: dec_digits_small)
next
  case False
  then have "length (dec_digits n) = Suc (length (dec_digits (n div 10)))"
    by (simp add: dec_digits_large)
  then have "length (dec_digits n) = 2 \<longleftrightarrow> n div 10 < 10"
    using length_dec_digits_1 [of "n div 10"] by simp
  then show ?thesis using False by arith
qed

lemma length_dec_digits_3: "length (dec_digits n) = 3 \<longleftrightarrow> 100 \<le> n \<and> n < 1000"
proof (cases "n < 10")
  case True
  then show ?thesis by (simp add: dec_digits_small)
next
  case False
  then have "length (dec_digits n) = Suc (length (dec_digits (n div 10)))"
    by (simp add: dec_digits_large)
  then have "length (dec_digits n) = 3 \<longleftrightarrow> 10 \<le> n div 10 \<and> n div 10 < 100"
    using length_dec_digits_2 [of "n div 10"] by simp
  then show ?thesis using False by arith
qed

lemma length_dec_digits_4: "length (dec_digits n) = 4 \<longleftrightarrow> 1000 \<le> n \<and> n < 10000"
proof (cases "n < 10")
  case True
  then show ?thesis by (simp add: dec_digits_small)
next
  case False
  then have "length (dec_digits n) = Suc (length (dec_digits (n div 10)))"
    by (simp add: dec_digits_large)
  then have "length (dec_digits n) = 4 \<longleftrightarrow> 100 \<le> n div 10 \<and> n div 10 < 1000"
    using length_dec_digits_3 [of "n div 10"] by simp
  then show ?thesis using False by arith
qed

lemma length_to_string_3: "0 \<le> v \<Longrightarrow> length (to_string v) = 3 \<longleftrightarrow> 100 \<le> v \<and> v \<le> 999"
  by (simp add: to_string_def length_dec_digits_3) arith

lemma length_to_string_4: "0 \<le> v \<Longrightarrow> length (to_string v) = 4 \<longleftrightarrow> 1000 \<le> v \<and> v \<le> 9999"
  by (simp add: to_string_def length_dec_digits_4) arith

lemma isCVVValid_range:
  "0 \<le> cvv cc \<Longrightarrow>
     isCVVValid cc \<longleftrightarrow>
       (cardType cc = ''American Express'' \<and> 1000 \<le> cvv cc \<and> cvv cc \<le> 9999) \<or>
       (cardType cc \<noteq> ''American Express'' \<and> 100 \<le> cvv cc \<and> cvv cc \<le> 999)"
  by (simp add: isCVVValid_def length_to_string_3 length_to_string_4)


text \<open>What the extraction stores: the old value at the end of the input, 0 for a text
  without digits.\<close>

lemma read_int_end_of_input: "dropWhile isspace str = [] \<Longrightarrow> read_int old str = old"
  by (simp add: read_int_def)

lemma read_int_no_digits: "read_int old ''abc'' = 0"
  by (simp add: read_int_def scan_defs)

section \<open>Properties of the pipeline\<close>

text \<open>The library functions never throw the program's own exception.\<close>

lemma substr_not_card: "substr s p n \<noteq> Inl (CardException m)"
  by (simp add: substr_def)

lemma stoi_not_card: "stoi s \<noteq> Inl (CardException m)"
  by (simp add: stoi_def Let_def split: prod.splits)

lemma maskCardNumber_not_card: "maskCardNumber cc \<noteq> Inl (CardException m)"
  by (simp add: maskCardNumber_def substr_def exn_bind_def)

lemma maskCardNumber_long:
  "4 \<le> length (cardNumber cc) \<Longrightarrow>
     maskCardNumber cc =
       Inr (''XXXX-XXXX-XXXX-'' @ drop (length (cardNumber cc) - 4) (cardNumber cc))"
  by (simp add: maskCardNumber_def substr_def exn_bind_def)

lemma maskCardNumber_cong:
  "cardNumber a = cardNumber b \<Longrightarrow> maskCardNumber a = maskCardNumber b"
  by (simp add: maskCardNumber_def)

lemma detectCardType_cong:
  "cardNumber a = cardNumber b \<Longrightarrow> detectCardType a = detectCardType b"
  by (simp add: detectCardType_eq)

text \<open>\<^verbatim>\<open>checkExpiry\<close> reads only the expiry date of the card, and writes only to the
  standard output.\<close>

lemma checkExpiry_shape:
  "\<exists>r l. (\<forall>m. r \<noteq> Some (CardException m)) \<and>
     (\<forall>cc' w. expiryDate cc' = expiryDate cc \<longrightarrow>
        checkExpiry e cc' w = (r, w\<lparr>cout := cout w @ l\<rparr>))"
proof (cases "exn_bind (substr (expiryDate cc) 0 2) stoi")
  case (Inl x)
  then have "x \<noteq> CardException m" for m
    by (auto simp: exn_bind_def stoi_not_card)
  then show ?thesis
    using Inl by (intro exI [of _ "Some x"] exI [of _ "[]"]) (simp add: checkExpiry_def)
next
  case month: (Inr month)
  show ?thesis
  proof (cases "exn_bind (substr (expiryDate cc) 3 2) (\<lambda>yy. stoi (''20'' @ yy))")
    case (Inl x)
    then have "x \<noteq> CardException m" for m
      by (auto simp: exn_bind_def stoi_not_card substr_not_card split: sum.splits)
    then show ?thesis
      using Inl month by (intro exI [of _ "Some x"] exI [of _ "[]"]) (simp add: checkExpiry_def)
  next
    case (Inr year)
    show ?thesis
      using Inr month
      by (intro exI [of _ None]
          exI [of _ "status_line (expiryStatus month year (tm_mon e + 1) (tm_year e + 1900)) @ endl"])
        (simp add: checkExpiry_def put_def)
  qed
qed

text \<open>\<^verbatim>\<open>logToFile\<close> reads every field of the card but the CVV, and writes only to the
  log file.\<close>

lemma logToFile_shape:
  "\<exists>r l. (\<forall>m. r \<noteq> Some (CardException m)) \<and>
     (\<forall>cc' w. cardNumber cc' = cardNumber (cc::CreditCard) \<and> expiryDate cc' = expiryDate cc \<and>
        cardHolder cc' = cardHolder cc \<and> cardType cc' = cardType cc \<longrightarrow>
        logToFile e cc' w = (r, w\<lparr>card_log := card_log w @ l\<rparr>))"
proof (cases "maskCardNumber cc")
  case (Inl x)
  then have x: "x \<noteq> CardException m" for m
    using maskCardNumber_not_card [of cc] by auto
  have same: "maskCardNumber cc' = Inl x" if "cardNumber cc' = cardNumber cc" for cc'
    using Inl maskCardNumber_cong [OF that] by simp
  show ?thesis
    by (intro exI [of _ "Some x"]
        exI [of _ "if log_opens e
                   then ''Card Holder: '' @ cardHolder cc @ endl @
                        ''Card Type: '' @ cardType cc @ endl @ ''Masked Card: ''
                   else []"])
      (simp add: logToFile_def put_log_def Let_def same x)
next
  case (Inr mk)
  have same: "maskCardNumber cc' = Inr mk" if "cardNumber cc' = cardNumber cc" for cc'
    using Inr maskCardNumber_cong [OF that] by simp
  show ?thesis
    by (intro exI [of _ None]
        exI [of _ "if log_opens e
                   then ''Card Holder: '' @ cardHolder cc @ endl @
                        ''Card Type: '' @ cardType cc @ endl @ ''Masked Card: '' @
                        mk @ endl @ ''Expiry: '' @ expiryDate cc @ endl @ endl
                   else []"])
      (simp add: logToFile_def put_log_def Let_def same)
qed

text \<open>The exception, the log and the error stream left by \<^verbatim>\<open>displayCardInfo\<close> do
  not depend on the CVV or on what was written to the standard output before.\<close>

lemma displayCardInfo_shape:
  "\<exists>r l. (\<forall>m. r \<noteq> Some (CardException m)) \<and>
     (\<forall>v w. fst (displayCardInfo e (cc\<lparr>cvv := v\<rparr>) w) = r \<and>
        card_log (snd (snd (displayCardInfo e (cc\<lparr>cvv := v\<rparr>) w))) = card_log w @ l \<and>
        cerr (snd (snd (displayCardInfo e (cc\<lparr>cvv := v\<rparr>) w))) = cerr w)"
proof (cases "maskCardNumber cc")
  case (Inl x)
  then have x: "x \<noteq> CardException m" for m
    using maskCardNumber_not_card [of cc] by auto
  have same: "maskCardNumber (cc\<lparr>cvv := v\<rparr>) = Inl x" for v
    using Inl maskCardNumber_cong [of "cc\<lparr>cvv := v\<rparr>" cc] by simp
  show ?thesis
    by (intro exI [of _ "Some x"] exI [of _ "[]"])
      (simp add: displayCardInfo_def Let_def same put_def x)
next
  case (Inr mk)
  have same: "maskCardNumber (cc\<lparr>cvv := v\<rparr>) = Inr mk" for v
    using Inr maskCardNumber_cong [of "cc\<lparr>cvv := v\<rparr>" cc] by simp
  obtain ty where "detectCardType cc = Inr ty"
    using detectCardType_eq [of cc] by blast
  then have ty: "detectCardType (cc\<lparr>cvv := v\<rparr>) = Inr ty" for v
    using detectCardType_cong [of "cc\<lparr>cvv := v\<rparr>" cc] by simp
  obtain r1 l1 where r1: "r1 \<noteq> Some (CardException m)"
    and ce: "expiryDate cc' = expiryDate cc \<Longrightarrow>
               checkExpiry e cc' w = (r1, w\<lparr>cout := cout w @ l1\<rparr>)" for m cc' w
    using checkExpiry_shape [of cc e] by blast
  obtain r2 l2 where r2: "r2 \<noteq> Some (CardException m)"
    and lf: "cardNumber cc' = cardNumber cc \<and> expiryDate cc' = expiryDate cc \<and>
        cardHolder cc' = cardHolder cc \<and> cardType cc' = ty \<Longrightarrow>
        logToFile e cc' w = (r2, w\<lparr>card_log := card_log w @ l2\<rparr>)" for m cc' w
    using logToFile_shape [of "cc\<lparr>cardType := ty\<rparr>" e] by auto
  show ?thesis
  proof (cases r1)
    case None
    show ?thesis
      by (intro exI [of _ r2] exI [of _ l2])
        (simp add: displayCardInfo_def Let_def same ty ce lf None put_def r2)
  next
    case (Some x)
    show ?thesis
      using r1
      by (intro exI [of _ r1] exI [of _ "[]"])
        (simp add: displayCardInfo_def Let_def same ty ce Some put_def)
  qed
qed


lemma validateCardNumber_cong:
  "cardNumber a = cardNumber b \<Longrightarrow> validateCardNumber a = validateCardNumber b"
  by (simp add: validateCardNumber_def)

lemma main_try_unfold:
  "main_try inp e w =
     (if length (number_text inp) < 13 \<or> length (number_text inp) > 19
      then (Some (CardException length_message), put prompts w)
      else if \<not> validateCardNumber
                  (EnhancedCard (number_text inp) (expiry_text inp) (holder_text inp)
                     (read_int (sint (cvv_uninit e)) (cvv_text inp)))
      then (Some (CardException luhn_message), put prompts w)
      else (case displayCardInfo e
                  (EnhancedCard (number_text inp) (expiry_text inp) (holder_text inp)
                     (read_int (sint (cvv_uninit e)) (cvv_text inp))) (put prompts w) of
              (Some x, cc', w2) \<Rightarrow> (Some x, w2)
            | (None, cc', w2) \<Rightarrow> (None, cardRiskScore e w2)))"
  by (simp add: main_try_def Let_def)

lemma c_str_messages: "c_str length_message = length_message" "c_str luhn_message = luhn_message"
  by (simp_all add: c_str_def length_message_def luhn_message_def cross_mark_def)

lemma messages_differ: "luhn_message \<noteq> length_message"
  by (simp add: length_message_def luhn_message_def)

text \<open>What passes through the \<^verbatim>\<open>try\<close> block once the length check and the Luhn check
  have passed: the exception (never a \<^verbatim>\<open>CardException\<close>), the log and the error stream
  are the same for every CVV text.\<close>

lemma main_try_shape:
  assumes len: "\<not> (length (number_text inp) < 13 \<or> length (number_text inp) > 19)"
    and luhn: "validateCardNumber
                 (EnhancedCard (number_text inp) (expiry_text inp) (holder_text inp) c0)"
  shows "\<exists>r l. (\<forall>m. r \<noteq> Some (CardException m)) \<and>
     (\<forall>t w. fst (main_try (inp\<lparr>cvv_text := t\<rparr>) e w) = r \<and>
        card_log (snd (main_try (inp\<lparr>cvv_text := t\<rparr>) e w)) = card_log w @ l \<and>
        cerr (snd (main_try (inp\<lparr>cvv_text := t\<rparr>) e w)) = cerr w)"
proof -
  let ?cc = "EnhancedCard (number_text inp) (expiry_text inp) (holder_text inp) c0"
  have card: "EnhancedCard (number_text inp) (expiry_text inp) (holder_text inp) v =
      ?cc\<lparr>cvv := v\<rparr>" for v
    by (simp add: EnhancedCard_def)
  have ok: "validateCardNumber
              (EnhancedCard (number_text inp) (expiry_text inp) (holder_text inp) v)" for v
    using luhn
      validateCardNumber_cong
        [of "EnhancedCard (number_text inp) (expiry_text inp) (holder_text inp) v" ?cc]
    by (simp add: EnhancedCard_def)
  obtain r l where r: "r \<noteq> Some (CardException m)"
    and d0: "fst (displayCardInfo e (?cc\<lparr>cvv := v\<rparr>) w) = r \<and>
        card_log (snd (snd (displayCardInfo e (?cc\<lparr>cvv := v\<rparr>) w))) = card_log w @ l \<and>
        cerr (snd (snd (displayCardInfo e (?cc\<lparr>cvv := v\<rparr>) w))) = cerr w" for m v w
    using displayCardInfo_shape [of e ?cc] by blast
  have d: "fst (displayCardInfo e
                 (EnhancedCard (number_text inp) (expiry_text inp) (holder_text inp) v) w) = r \<and>
        card_log (snd (snd (displayCardInfo e
                 (EnhancedCard (number_text inp) (expiry_text inp) (holder_text inp) v) w))) =
          card_log w @ l \<and>
        cerr (snd (snd (displayCardInfo e
                 (EnhancedCard (number_text inp) (expiry_text inp) (holder_text inp) v) w))) =
          cerr w" for v w
    using d0 [of v w] unfolding card [symmetric] .
  have "fst (main_try (inp\<lparr>cvv_text := t\<rparr>) e w) = r \<and>
        card_log (snd (main_try (inp\<lparr>cvv_text := t\<rparr>) e w)) = card_log w @ l \<and>
        cerr (snd (main_try (inp\<lparr>cvv_text := t\<rparr>) e w)) = cerr w" for t w
  proof (cases "displayCardInfo e
      (EnhancedCard (number_text inp) (expiry_text inp) (holder_text inp) (read_int (sint (cvv_uninit e)) t))
      (put prompts w)")
    case (fields r' cc' w2)
    with d [of "read_int (sint (cvv_uninit e)) t" "put prompts w"]
    have "r' = r" "card_log w2 = card_log w @ l" "cerr w2 = cerr w"
      by (simp_all add: put_def)
    then show ?thesis
      using len fields ok [of "read_int (sint (cvv_uninit e)) t"]
      by (cases r) (simp_all add: main_try_unfold cardRiskScore_def put_def Let_def)
  qed
  then show ?thesis using r by blast
qed

lemma main_try_not_length:
  assumes "\<not> (length (number_text inp) < 13 \<or> length (number_text inp) > 19)"
  shows "fst (main_try inp e w) \<noteq> Some (CardException length_message)"
proof (cases "validateCardNumber
    (EnhancedCard (number_text inp) (expiry_text inp) (holder_text inp) (read_int (sint (cvv_uninit e)) (cvv_text inp)))")
  case True
  from main_try_shape [OF assms True, of e]
  obtain r where "r \<noteq> Some (CardException length_message)"
    and "fst (main_try (inp\<lparr>cvv_text := cvv_text inp\<rparr>) e w) = r"
    by blast
  then show ?thesis by simp
next
  case False
  then show ?thesis
    using assms by (simp add: main_try_unfold messages_differ)
qed

lemma main_try_cerr: "cerr (snd (main_try inp e w)) = cerr w"
proof (cases "\<not> (length (number_text inp) < 13 \<or> length (number_text inp) > 19) \<and>
    validateCardNumber
      (EnhancedCard (number_text inp) (expiry_text inp) (holder_text inp) (read_int (sint (cvv_uninit e)) (cvv_text inp)))")
  case True
  then have "cerr (snd (main_try (inp\<lparr>cvv_text := cvv_text inp\<rparr>) e w)) = cerr w"
    using main_try_shape [of inp "read_int (sint (cvv_uninit e)) (cvv_text inp)" e] by blast
  then show ?thesis by simp
next
  case False
  then show ?thesis
    by (auto simp: main_try_unfold put_def)
qed

lemma main_exit: "fst (main inp e w) = 0"
  by (simp add: main_def split: prod.splits option.splits exn.splits)

lemma main_cerr:
  "cerr (snd (main inp e w)) =
     cerr w @ (case fst (main_try inp e w) of
                 None \<Rightarrow> []
               | Some (CardException m) \<Rightarrow> c_str m @ endl
               | Some _ \<Rightarrow> ''Unexpected error occurred!'' @ endl)"
  using main_try_cerr [of inp e w]
  by (cases "main_try inp e w")
    (simp add: main_def put_err_def split: option.splits exn.splits)

lemma main_card_log: "card_log (snd (main inp e w)) = card_log (snd (main_try inp e w))"
  by (cases "main_try inp e w")
    (simp add: main_def put_err_def split: option.splits exn.splits)


text \<open>
  Claim C6. The \<^verbatim>\<open>try\<close> block ends with the length exception exactly when the number
  is shorter than 13 or longer than 19 characters. In that case nothing but the welcome
  line and the prompts has been written to the standard output, the log file is
  untouched, and the message goes to the error stream: no later stage has run.
\<close>

theorem format_guard:
  "(fst (main_try inp e w) = Some (CardException length_message) \<longleftrightarrow>
      length (number_text inp) < 13 \<or> length (number_text inp) > 19) \<and>
   (length (number_text inp) < 13 \<or> length (number_text inp) > 19 \<longrightarrow>
      main_try inp e w = (Some (CardException length_message), w\<lparr>cout := cout w @ prompts\<rparr>) \<and>
      main inp e w =
        (0, w\<lparr>cout := cout w @ prompts, cerr := cerr w @ length_message @ endl\<rparr>))"
proof -
  have 1: "fst (main_try inp e w) = Some (CardException length_message)"
    and 2: "main_try inp e w = (Some (CardException length_message), w\<lparr>cout := cout w @ prompts\<rparr>)"
    and 3: "main inp e w =
        (0, w\<lparr>cout := cout w @ prompts, cerr := cerr w @ length_message @ endl\<rparr>)"
    if "length (number_text inp) < 13 \<or> length (number_text inp) > 19"
    using that by (simp_all add: main_def main_try_unfold put_def put_err_def c_str_messages)
  show ?thesis
    using 1 2 3 main_try_not_length [of inp e w] by blast
qed

theorem format_guard_witness:
  "length ''453957876362'' < 13 \<and>
   main \<lparr>number_text = ''453957876362'', expiry_text = ''12/30'', holder_text = ''A B'',
           cvv_text = ''123''\<rparr>
        \<lparr>tm_mon = 5, tm_year = 124, rand_value = 42, log_opens = True,
          cvv_uninit = 0\<rparr>
        \<lparr>cout = [], cerr = [], card_log = []\<rparr> =
     (0, \<lparr>cout = prompts, cerr = length_message @ endl, card_log = []\<rparr>)"
  using format_guard [of "\<lparr>number_text = ''453957876362'', expiry_text = ''12/30'',
      holder_text = ''A B'', cvv_text = ''123''\<rparr>"
      "\<lparr>tm_mon = 5, tm_year = 124, rand_value = 42, log_opens = True,
          cvv_uninit = 0\<rparr>"
      "\<lparr>cout = [], cerr = [], card_log = []\<rparr>"]
  by simp

text \<open>
  Claim C7. When the number passes the length check and fails the Luhn check, the run
  ends with the Luhn exception: the standard output holds only the welcome line and the
  prompts (no network, CVV or expiry output), the message goes to the error stream, and
  the log file is unchanged.
\<close>

theorem luhn_failure_aborts:
  assumes "13 \<le> length (number_text inp)" and "length (number_text inp) \<le> 19"
    and "\<not> validateCardNumber
             (EnhancedCard (number_text inp) (expiry_text inp) (holder_text inp)
                (read_int (sint (cvv_uninit e)) (cvv_text inp)))"
  shows "main_try inp e w = (Some (CardException luhn_message), w\<lparr>cout := cout w @ prompts\<rparr>) \<and>
         main inp e w =
           (0, w\<lparr>cout := cout w @ prompts, cerr := cerr w @ luhn_message @ endl\<rparr>) \<and>
         card_log (snd (main inp e w)) = card_log w"
  using assms by (simp add: main_def main_try_unfold put_def put_err_def c_str_messages)

theorem luhn_failure_aborts_witness:
  "13 \<le> length ''4539578763621487'' \<and> length ''4539578763621487'' \<le> 19 \<and>
   \<not> validateCardNumber (EnhancedCard ''4539578763621487'' ''12/30'' ''A B'' (read_int 0 ''123'')) \<and>
   main \<lparr>number_text = ''4539578763621487'', expiry_text = ''12/30'', holder_text = ''A B'',
           cvv_text = ''123''\<rparr>
        \<lparr>tm_mon = 5, tm_year = 124, rand_value = 42, log_opens = True,
          cvv_uninit = 0\<rparr>
        \<lparr>cout = [], cerr = [], card_log = []\<rparr> =
     (0, \<lparr>cout = prompts, cerr = luhn_message @ endl, card_log = []\<rparr>)"
  using luhn_failure_aborts [of "\<lparr>number_text = ''4539578763621487'', expiry_text = ''12/30'',
      holder_text = ''A B'', cvv_text = ''123''\<rparr>"
      "\<lparr>tm_mon = 5, tm_year = 124, rand_value = 42, log_opens = True,
          cvv_uninit = 0\<rparr>"
      "\<lparr>cout = [], cerr = [], card_log = []\<rparr>"]
  by (simp add: validateCardNumber_fold EnhancedCard_def isdigit_def digit_val_def)

text \<open>
  Claim C9. For every input the exit status is 0. An exception leaving the \<^verbatim>\<open>try\<close>
  block only adds a line of text to the error stream: the message of a
  \<^verbatim>\<open>CardException\<close>, or the fixed text for any other exception.
\<close>

theorem always_exit_zero:
  "fst (main inp e w) = 0 \<and>
   cerr (snd (main inp e w)) =
     cerr w @ (case fst (main_try inp e w) of
                 None \<Rightarrow> []
               | Some (CardException m) \<Rightarrow> c_str m @ endl
               | Some _ \<Rightarrow> ''Unexpected error occurred!'' @ endl)"
  using main_exit [of inp e w] main_cerr [of inp e w] by blast


text \<open>The definitions needed to run the whole program on a concrete input.\<close>

lemmas run_defs = main_try_unfold displayCardInfo_def checkExpiry_def logToFile_def
  maskCardNumber_def detectCardType_eq exn_bind_def substr_def stoi_def read_int_def
  EnhancedCard_def validateCardNumber_fold put_def put_log_def Let_def

text \<open>A run that ends in the catch-all handler: the expiry text \<^verbatim>\<open>12\<close> is too short
  for \<^verbatim>\<open>substr(3, 2)\<close>.\<close>

theorem always_exit_zero_witness:
  "fst (main \<lparr>number_text = ''4539578763621486'', expiry_text = ''12'', holder_text = ''A B'',
           cvv_text = ''123''\<rparr>
        \<lparr>tm_mon = 5, tm_year = 124, rand_value = 42, log_opens = True,
          cvv_uninit = 0\<rparr>
        \<lparr>cout = [], cerr = [], card_log = []\<rparr>) = 0 \<and>
   cerr (snd (main \<lparr>number_text = ''4539578763621486'', expiry_text = ''12'', holder_text = ''A B'',
           cvv_text = ''123''\<rparr>
        \<lparr>tm_mon = 5, tm_year = 124, rand_value = 42, log_opens = True,
          cvv_uninit = 0\<rparr>
        \<lparr>cout = [], cerr = [], card_log = []\<rparr>)) = ''Unexpected error occurred!'' @ endl \<and>
   fst (main_try \<lparr>number_text = ''4539578763621486'', expiry_text = ''12'', holder_text = ''A B'',
           cvv_text = ''123''\<rparr>
        \<lparr>tm_mon = 5, tm_year = 124, rand_value = 42, log_opens = True,
          cvv_uninit = 0\<rparr>
        \<lparr>cout = [], cerr = [], card_log = []\<rparr>) = Some out_of_range"
proof -
  have "fst (main_try \<lparr>number_text = ''4539578763621486'', expiry_text = ''12'', holder_text = ''A B'',
           cvv_text = ''123''\<rparr>
        \<lparr>tm_mon = 5, tm_year = 124, rand_value = 42, log_opens = True,
          cvv_uninit = 0\<rparr>
        \<lparr>cout = [], cerr = [], card_log = []\<rparr>) = Some out_of_range"
    by (simp add: run_defs scan_defs)
  then show ?thesis
    using always_exit_zero [of "\<lparr>number_text = ''4539578763621486'', expiry_text = ''12'',
      holder_text = ''A B'', cvv_text = ''123''\<rparr>"
      "\<lparr>tm_mon = 5, tm_year = 124, rand_value = 42, log_opens = True,
          cvv_uninit = 0\<rparr>"
      "\<lparr>cout = [], cerr = [], card_log = []\<rparr>"]
    by simp
qed

text \<open>
  The CVV result is advisory: the exception that ends the \<^verbatim>\<open>try\<close> block (or its
  absence), the log file and the error stream are the same whatever text is entered as
  the CVV.
\<close>

lemma cvv_text_never_aborts:
  "fst (main_try (inp\<lparr>cvv_text := t\<rparr>) e w) = fst (main_try inp e w) \<and>
   card_log (snd (main (inp\<lparr>cvv_text := t\<rparr>) e w)) = card_log (snd (main inp e w)) \<and>
   cerr (snd (main (inp\<lparr>cvv_text := t\<rparr>) e w)) = cerr (snd (main inp e w))"
proof -
  have 4: "fst (main_try (inp\<lparr>cvv_text := t\<rparr>) e w) = fst (main_try inp e w) \<and>
      card_log (snd (main_try (inp\<lparr>cvv_text := t\<rparr>) e w)) = card_log (snd (main_try inp e w))"
  proof (cases "\<not> (length (number_text inp) < 13 \<or> length (number_text inp) > 19) \<and>
      validateCardNumber (EnhancedCard (number_text inp) (expiry_text inp) (holder_text inp) 0)")
    case True
    then obtain r l where
      s: "fst (main_try (inp\<lparr>cvv_text := u\<rparr>) e w) = r \<and>
          card_log (snd (main_try (inp\<lparr>cvv_text := u\<rparr>) e w)) = card_log w @ l" for u
      using main_try_shape [of inp 0 e] by blast
    show ?thesis using s [of t] s [of "cvv_text inp"] by simp
  next
    case False
    have "validateCardNumber (EnhancedCard (number_text inp) (expiry_text inp) (holder_text inp) a) =
          validateCardNumber (EnhancedCard (number_text inp) (expiry_text inp) (holder_text inp) b)"
      for a b
      by (rule validateCardNumber_cong) (simp add: EnhancedCard_def)
    from this [of _ 0] False show ?thesis
      by (auto simp: main_try_unfold)
  qed
  have 5: "card_log (snd (main (inp\<lparr>cvv_text := t\<rparr>) e w)) = card_log (snd (main inp e w))"
    using 4 by (simp add: main_card_log)
  have 6: "cerr (snd (main (inp\<lparr>cvv_text := t\<rparr>) e w)) = cerr (snd (main inp e w))"
    using 4 by (simp add: main_cerr)
  show ?thesis using 4 5 6 by blast
qed

text \<open>A run with an invalid CVV (two digits on a Visa number) goes on to the expiry check
  and writes its block to the log.\<close>

lemma invalid_cvv_run_completes:
  "\<not> isCVVValid ((EnhancedCard ''4539578763621486'' ''12/30'' ''A B'' 12)\<lparr>cardType := ''Visa''\<rparr>) \<and>
   fst (main_try \<lparr>number_text = ''4539578763621486'', expiry_text = ''12/30'', holder_text = ''A B'',
           cvv_text = ''12''\<rparr>
        \<lparr>tm_mon = 5, tm_year = 124, rand_value = 42, log_opens = True,
          cvv_uninit = 0\<rparr>
        \<lparr>cout = [], cerr = [], card_log = []\<rparr>) = None \<and>
   card_log (snd (main \<lparr>number_text = ''4539578763621486'', expiry_text = ''12/30'',
           holder_text = ''A B'', cvv_text = ''12''\<rparr>
        \<lparr>tm_mon = 5, tm_year = 124, rand_value = 42, log_opens = True,
          cvv_uninit = 0\<rparr>
        \<lparr>cout = [], cerr = [], card_log = []\<rparr>)) =
     ''Card Holder: A B'' @ endl @ ''Card Type: Visa'' @ endl @
     ''Masked Card: XXXX-XXXX-XXXX-1486'' @ endl @ ''Expiry: 12/30'' @ endl @ endl"
proof -
  have "fst (main_try \<lparr>number_text = ''4539578763621486'', expiry_text = ''12/30'',
           holder_text = ''A B'', cvv_text = ''12''\<rparr>
        \<lparr>tm_mon = 5, tm_year = 124, rand_value = 42, log_opens = True,
          cvv_uninit = 0\<rparr>
        \<lparr>cout = [], cerr = [], card_log = []\<rparr>) = None"
    by (simp add: run_defs scan_defs)
  moreover have "card_log (snd (main_try \<lparr>number_text = ''4539578763621486'',
           expiry_text = ''12/30'', holder_text = ''A B'', cvv_text = ''12''\<rparr>
        \<lparr>tm_mon = 5, tm_year = 124, rand_value = 42, log_opens = True,
          cvv_uninit = 0\<rparr>
        \<lparr>cout = [], cerr = [], card_log = []\<rparr>)) =
     ''Card Holder: A B'' @ endl @ ''Card Type: Visa'' @ endl @
     ''Masked Card: XXXX-XXXX-XXXX-1486'' @ endl @ ''Expiry: 12/30'' @ endl @ endl"
    by (simp add: run_defs scan_defs cardRiskScore_def)
  ultimately show ?thesis
    by (simp add: main_card_log EnhancedCard_def isCVVValid_range)
qed

text \<open>
  Claim C4 (not met by the program). The CVV check should return valid exactly when the
  network is American Express and the CVV has 4 digits, or the network is not American
  Express and the CVV has 3 digits. The program takes the digit count to be the length
  of the decimal rendering of the stored \<^verbatim>\<open>int\<close>, which counts a minus sign: the text
  \<^verbatim>\<open>-12\<close> is read as the number -12, rendered in three characters, and the two-digit
  CVV is valid on a Visa number; likewise the three-digit \<^verbatim>\<open>-123\<close> is valid on an
  American Express number. (On stored numbers that are not negative the rule is
  followed: \<open>isCVVValid_range\<close>.)
\<close>

theorem cvv_sign_counted:
  "read_int old ''-12'' = - 12 \<and> length (to_string (read_int old ''-12'')) = 3 \<and>
   validateCardNumber (EnhancedCard ''4539578763621486'' ''12/30'' ''A B'' (read_int old ''-12'')) \<and>
   detectCardType (EnhancedCard ''4539578763621486'' ''12/30'' ''A B'' (read_int old ''-12'')) =
     Inr ''Visa'' \<and>
   isCVVValid
     ((EnhancedCard ''4539578763621486'' ''12/30'' ''A B'' (read_int old ''-12''))
        \<lparr>cardType := ''Visa''\<rparr>) \<and>
   read_int old ''-123'' = - 123 \<and> length (to_string (read_int old ''-123'')) = 4 \<and>
   validateCardNumber (EnhancedCard ''378282246310005'' ''12/30'' ''A B'' (read_int old ''-123'')) \<and>
   detectCardType (EnhancedCard ''378282246310005'' ''12/30'' ''A B'' (read_int old ''-123'')) =
     Inr ''American Express'' \<and>
   isCVVValid
     ((EnhancedCard ''378282246310005'' ''12/30'' ''A B'' (read_int old ''-123''))
        \<lparr>cardType := ''American Express''\<rparr>)"
proof -
  have r: "read_int old ''-12'' = - 12" "read_int old ''-123'' = - 123"
    by (simp_all add: read_int_def scan_defs)
  have l: "length (to_string (- 12)) = 3" "length (to_string (- 123)) = 4"
    by (simp_all add: to_string_def length_dec_digits_2 length_dec_digits_3)
  have v: "validateCardNumber (EnhancedCard ''4539578763621486'' ''12/30'' ''A B'' c)"
    "validateCardNumber (EnhancedCard ''378282246310005'' ''12/30'' ''A B'' c)" for c
    by (simp_all add: validateCardNumber_fold EnhancedCard_def isdigit_def digit_val_def)
  have d: "detectCardType (EnhancedCard ''4539578763621486'' ''12/30'' ''A B'' c) = Inr ''Visa''"
    "detectCardType (EnhancedCard ''378282246310005'' ''12/30'' ''A B'' c) =
       Inr ''American Express''" for c
    by (simp_all add: detectCardType_eq EnhancedCard_def)
  have i: "isCVVValid ((EnhancedCard ''4539578763621486'' ''12/30'' ''A B'' (- 12))
             \<lparr>cardType := ''Visa''\<rparr>)"
    "isCVVValid ((EnhancedCard ''378282246310005'' ''12/30'' ''A B'' (- 123))
             \<lparr>cardType := ''American Express''\<rparr>)"
    by (simp_all add: l EnhancedCard_def isCVVValid_def)
  show ?thesis
    unfolding r using l v d i by blast
qed

text \<open>
  Claim C5 (not met by the program). The CVV text \<^verbatim>\<open>045\<close> has three digits, but the
  program stores it in an \<^verbatim>\<open>int\<close> as 45, whose decimal rendering has two characters;
  on a Visa number the CVV check then answers invalid.
\<close>

theorem cvv_leading_zero_lost:
  "length ''045'' = 3 \<and> read_int old ''045'' = 45 \<and> length (to_string (read_int old ''045'')) = 2 \<and>
   detectCardType (EnhancedCard ''4539578763621486'' ''12/30'' ''A B'' (read_int old ''045'')) =
     Inr ''Visa'' \<and>
   \<not> isCVVValid
       ((EnhancedCard ''4539578763621486'' ''12/30'' ''A B'' (read_int old ''045''))
          \<lparr>cardType := ''Visa''\<rparr>)"
proof -
  have r: "read_int old ''045'' = 45"
    by (simp add: read_int_def scan_defs)
  have l: "length (to_string 45) = 2"
    by (simp add: to_string_def length_dec_digits_2)
  show ?thesis
    by (simp add: r l detectCardType_eq EnhancedCard_def isCVVValid_def)
qed

end
